theory Spec2Isabelle
  imports Main
begin

section \<open>Data models of \<^verbatim>\<open>email_feedback.py\<close>\<close>

text \<open>
  Python strings are modelled as \<^typ>\<open>string\<close>; a \<^typ>\<open>char\<close> stands for a code point
  below 256. The dataclasses \<^verbatim>\<open>User\<close>, \<^verbatim>\<open>State\<close> and \<^verbatim>\<open>Email\<close>
  are records. \<^verbatim>\<open>User\<close> is a standard-library dataclass: its constructor stores the
  three fields as given and runs no check on them. The element type of
  \<^verbatim>\<open>write_agent_messages\<close> (\<^verbatim>\<open>ModelMessage\<close>) belongs to the agent library and
  stays a type parameter.
\<close>

record User =
  name :: string
  email :: string
  interests :: "string list"

record 'm State =
  user :: User
  write_agent_messages :: "'m list"

record Email =
  subject :: string
  body :: string

text \<open>
  The result type of the feedback agent, \<^verbatim>\<open>EmailRequiresWrite | Email0k\<close>.
\<close>

datatype feedback_result = EmailRequiresWrite (feedback: string) | Email0k

section \<open>String operations used by \<^verbatim>\<open>generate_email\<close>\<close>

text \<open>
  \<^verbatim>\<open>str.strip()\<close> without argument removes the characters for which
  \<^verbatim>\<open>str.isspace\<close> holds. Below 256 these are the code points 9 to 13, 28 to 32,
  133 and 160.
\<close>

definition py_isspace :: "char \<Rightarrow> bool" where
  "py_isspace c =
     (let n = (of_char c :: nat)
      in (9 \<le> n \<and> n \<le> 13) \<or> (28 \<le> n \<and> n \<le> 32) \<or> n = 133 \<or> n = 160)"

definition strip :: "string \<Rightarrow> string" where
  "strip s = rev (dropWhile py_isspace (rev (dropWhile py_isspace s)))"

text \<open>
  \<^verbatim>\<open>s.split(sep)\<close> for a one-character separator: the text up to the next separator,
  then the split of what follows it. A string with no separator is one piece, so the
  result is never empty and \<^verbatim>\<open>"".split(",")\<close> is \<^verbatim>\<open>[""]\<close>.
\<close>

function split :: "char \<Rightarrow> string \<Rightarrow> string list" where
  "split sep s =
     (case dropWhile (\<lambda>c. c \<noteq> sep) s of
        [] \<Rightarrow> [s]
      | _ # rest \<Rightarrow> takeWhile (\<lambda>c. c \<noteq> sep) s # split sep rest)"
  by pat_completeness auto
termination
proof (relation "measure (\<lambda>(sep, s). length s)")
  show "wf (measure (\<lambda>(sep, s). length s))" by simp
next
  fix sep :: char and s :: string and x21 :: char and rest :: string
  assume dw: "dropWhile (\<lambda>c. c \<noteq> sep) s = x21 # rest"
  have "length (dropWhile (\<lambda>c. c \<noteq> sep) s) \<le> length s"
    by (rule length_dropWhile_le)
  with dw have "length rest < length s" by simp
  then show "((sep, rest), (sep, s)) \<in> measure (\<lambda>(sep, s). length s)" by simp
qed

declare split.simps [simp del]

text \<open>
  \<^verbatim>\<open>sep.join(parts)\<close>, the inverse of \<^verbatim>\<open>split\<close>; used only to state what
  \<^verbatim>\<open>split\<close> computes.
\<close>

fun join :: "char \<Rightarrow> string list \<Rightarrow> string" where
  "join sep [] = []"
| "join sep [p] = p"
| "join sep (p # q # ps) = p @ sep # join sep (q # ps)"

text \<open>
  Line 152, the list comprehension
  \<^verbatim>\<open>[interest.strip() for interest in interests.split(",") if interest.strip()]\<close>:
  a piece is kept when its stripped form is a non-empty (truthy) string, and the
  stripped form is what is stored.
\<close>

definition interests_list :: "string \<Rightarrow> string list" where
  "interests_list s =
     map strip (filter (\<lambda>interest. strip interest \<noteq> []) (split (CHR '','') s))"

section \<open>Startup configuration\<close>

text \<open>
  The process environment is a map from variable names to values.
  \<^verbatim>\<open>os.getenv(key, default)\<close> returns the value of a variable that is set and the
  default otherwise; it never raises.
\<close>

definition getenv :: "(string \<rightharpoonup> string) \<Rightarrow> string \<Rightarrow> string \<Rightarrow> string" where
  "getenv env key dflt = (case env key of None \<Rightarrow> dflt | Some v \<Rightarrow> v)"

text \<open>Line 46.\<close>

definition openai_api_key :: "(string \<rightharpoonup> string) \<Rightarrow> string" where
  "openai_api_key env = getenv env ''OPENAI_API_KEY'' ''your-api-key-here''"

text \<open>
  Lines 49 and 56: the two model objects, each holding the arguments its constructor
  was given.
\<close>

record OpenAIModel =
  model_name :: string
  api_key :: string

definition email_writer_model :: "(string \<rightharpoonup> string) \<Rightarrow> OpenAIModel" where
  "email_writer_model env = \<lparr>model_name = ''gpt-3.5-turbo'', api_key = openai_api_key env\<rparr>"

definition feedback_model :: "(string \<rightharpoonup> string) \<Rightarrow> OpenAIModel" where
  "feedback_model env = \<lparr>model_name = ''gpt-3.5-turbo'', api_key = openai_api_key env\<rparr>"

section \<open>The agents and the run context\<close>

text \<open>
  The two agents and \<^verbatim>\<open>format_as_xml\<close> belong to libraries outside the repository and
  are parameters of the model. An agent's \<^verbatim>\<open>run(prompt)\<close> talks to a service whose
  answers may differ from call to call, so it is a function of the prompt and of the
  state \<open>'w\<close> of that service, returning the new state with either the exception it
  raised (\<open>Inl\<close>) or its result (\<open>Inr\<close>). For the writer the result is
  \<^verbatim>\<open>result.data\<close>, an \<^verbatim>\<open>Email\<close>, with \<^verbatim>\<open>result.all_messages()\<close>; for the
  feedback agent it is \<^verbatim>\<open>result.data\<close>. \<^verbatim>\<open>format_as_xml\<close> is applied to a
  \<^verbatim>\<open>User\<close> (line 88) and to a dictionary of a \<^verbatim>\<open>User\<close> and an \<^verbatim>\<open>Email\<close>
  (line 126).
\<close>

record ('w, 'e, 'm) agents =
  email_writer_agent :: "string \<Rightarrow> 'w \<Rightarrow> ('e + Email \<times> 'm list) \<times> 'w"
  feedback_agent :: "string \<Rightarrow> 'w \<Rightarrow> ('e + feedback_result) \<times> 'w"
  format_user :: "User \<Rightarrow> string"
  format_user_email :: "User \<Rightarrow> Email \<Rightarrow> string"

text \<open>
  One entry per call of an agent's \<^verbatim>\<open>run\<close>, with the prompt it was given.
\<close>

datatype call = WriterRun string | FeedbackRun string

text \<open>
  The context a node runs in: \<^verbatim>\<open>ctx.state\<close>, together with the state of the service
  and the calls made to the agents so far, in order.
\<close>

record ('w, 'm) ctx =
  state :: "'m State"
  world :: 'w
  calls :: "call list"

section \<open>Graph nodes\<close>

datatype node = WriteEmail "string option" | Feedback Email

text \<open>What \<^verbatim>\<open>Feedback.run\<close> returns: the next node or \<^verbatim>\<open>End(email)\<close>.\<close>

datatype next_step = Next node | End Email

text \<open>Lines 93 to 98, the literal \<^verbatim>\<open>user_xml\<close>.\<close>

definition user_xml :: string where
  "user_xml =
     ''\<newline>            <examples>'' @
     ''\<newline>                <name>John Doe</name>'' @
     ''\<newline>                <email>john.joe@example.com</email>'' @
     ''\<newline>            </examples>'' @
     ''\<newline>            ''"

text \<open>
  Lines 84 to 102. The test \<^verbatim>\<open>if self.email_feedback:\<close> is Python truthiness:
  it fails for \<^verbatim>\<open>None\<close> and for the empty string.
\<close>

fun WriteEmail_prompt :: "(User \<Rightarrow> string) \<Rightarrow> User \<Rightarrow> string option \<Rightarrow> string" where
  "WriteEmail_prompt fmt u (Some f) =
     (if f \<noteq> []
      then ''Rewrite the email for the user:\<newline>'' @ fmt u @ ''\<newline>'' @ ''Feedback: '' @ f
      else ''Write a welcome email for the user:\<newline>'' @ user_xml)"
| "WriteEmail_prompt fmt u None = ''Write a welcome email for the user:\<newline>'' @ user_xml"

text \<open>
  \<^verbatim>\<open>WriteEmail.run\<close>, lines 79 to 111. An exception of the agent leaves the method at
  line 105, before the assignment to \<^verbatim>\<open>ctx.state.write_agent_messages\<close>.
\<close>

definition WriteEmail_run ::
  "('w, 'e, 'm) agents \<Rightarrow> string option \<Rightarrow> ('w, 'm) ctx \<Rightarrow> ('e + node) \<times> ('w, 'm) ctx" where
  "WriteEmail_run A fb c =
     (let prompt = WriteEmail_prompt (format_user A) (user (state c)) fb;
          (result, w) = email_writer_agent A prompt (world c);
          c1 = c\<lparr>world := w, calls := calls c @ [WriterRun prompt]\<rparr>
      in case result of
           Inl e \<Rightarrow> (Inl e, c1)
         | Inr (data, all_messages) \<Rightarrow>
             (Inr (Feedback data),
              c1\<lparr>state := (state c1)\<lparr>write_agent_messages := all_messages\<rparr>\<rparr>))"

text \<open>\<^verbatim>\<open>Feedback.run\<close>, lines 121 to 135.\<close>

definition Feedback_run ::
  "('w, 'e, 'm) agents \<Rightarrow> Email \<Rightarrow> ('w, 'm) ctx \<Rightarrow> ('e + next_step) \<times> ('w, 'm) ctx" where
  "Feedback_run A em c =
     (let prompt = format_user_email A (user (state c)) em;
          (result, w) = feedback_agent A prompt (world c);
          c1 = c\<lparr>world := w, calls := calls c @ [FeedbackRun prompt]\<rparr>
      in case result of
           Inl e \<Rightarrow> (Inl e, c1)
         | Inr (EmailRequiresWrite f) \<Rightarrow> (Inr (Next (WriteEmail (Some f))), c1)
         | Inr Email0k \<Rightarrow> (Inr (End em), c1))"

section \<open>Running the graph\<close>

text \<open>
  \<^verbatim>\<open>feedback_graph.run_sync\<close> runs the start node and then each node a node returns,
  until a node returns \<^verbatim>\<open>End\<close>; an exception of a node ends the run. Nothing bounds
  the number of rounds, so the run is a partial function: \<open>None\<close> is a run that never
  returns.
\<close>

partial_function (option) run_sync ::
  "('w, 'e, 'm) agents \<Rightarrow> node \<Rightarrow> ('w, 'm) ctx \<Rightarrow> (('e + Email) \<times> ('w, 'm) ctx) option" where
  "run_sync A start_node c =
     (case start_node of
        WriteEmail fb \<Rightarrow>
          (case WriteEmail_run A fb c of
             (Inl e, c') \<Rightarrow> Some (Inl e, c')
           | (Inr n, c') \<Rightarrow> run_sync A n c')
      | Feedback em \<Rightarrow>
          (case Feedback_run A em c of
             (Inl e, c') \<Rightarrow> Some (Inl e, c')
           | (Inr (Next n), c') \<Rightarrow> run_sync A n c'
           | (Inr (End final_email), c') \<Rightarrow> Some (Inr final_email, c')))"

declare run_sync.simps [code]

section \<open>The interface function\<close>

text \<open>Line 160.\<close>

definition render :: "Email \<Rightarrow> string" where
  "render final_email = ''Subject: '' @ subject final_email @ ''\<newline>\<newline>'' @ body final_email"

text \<open>
  \<^verbatim>\<open>generate_email\<close>, lines 147 to 160, started with the service in state \<open>w\<close>.
  The result is the returned text or the exception that ended the run, with the final
  context.
\<close>

definition generate_email ::
  "('w, 'e, 'm) agents \<Rightarrow> string \<Rightarrow> string \<Rightarrow> string \<Rightarrow> 'w \<Rightarrow>
   (('e + string) \<times> ('w, 'm) ctx) option" where
  "generate_email A name_in email_in interests_in w =
     (let user_obj = \<lparr>name = name_in, email = email_in, interests = interests_list interests_in\<rparr>;
          state_obj = \<lparr>user = user_obj, write_agent_messages = []\<rparr>
      in case run_sync A (WriteEmail None) \<lparr>state = state_obj, world = w, calls = []\<rparr> of
           None \<Rightarrow> None
         | Some (Inl e, c) \<Rightarrow> Some (Inl e, c)
         | Some (Inr final_email, c) \<Rightarrow> Some (Inr (render final_email), c))"

section \<open>Test doubles\<close>

text \<open>
  Concrete agents, used only to run the model on examples. The state of the service is
  the number of calls it has answered. The writer answers its first call with one
  document and every later call with another, and reports one message per exchange;
  the feedback agent asks for a rewrite while fewer than \<open>k\<close> calls have been
  answered and approves from then on.
\<close>

definition test_format_user :: "User \<Rightarrow> string" where
  "test_format_user u = name u @ '' <'' @ email u @ ''> '' @ join (CHR '','') (interests u)"

definition test_format_user_email :: "User \<Rightarrow> Email \<Rightarrow> string" where
  "test_format_user_email u e = test_format_user u @ '' / '' @ subject e @ '' / '' @ body e"

definition test_writer :: "string \<Rightarrow> nat \<Rightarrow> (string + Email \<times> string list) \<times> nat" where
  "test_writer prompt w =
     (let d = (if w = 0 then ''first draft'' else ''revised draft'')
      in (Inr (\<lparr>subject = ''Welcome'', body = d\<rparr>, [d]), Suc w))"

definition test_feedback :: "nat \<Rightarrow> string \<Rightarrow> nat \<Rightarrow> (string + feedback_result) \<times> nat" where
  "test_feedback k prompt w =
     (if w < k then Inr (EmailRequiresWrite ''mention gardening'') else Inr Email0k, Suc w)"

definition failing_writer :: "string \<Rightarrow> nat \<Rightarrow> (string + Email \<times> string list) \<times> nat" where
  "failing_writer prompt w = (Inl ''UnexpectedModelBehavior'', Suc w)"

definition test_agents :: "nat \<Rightarrow> (nat, string, string) agents" where
  "test_agents k =
     \<lparr>email_writer_agent = test_writer, feedback_agent = test_feedback k,
      format_user = test_format_user, format_user_email = test_format_user_email\<rparr>"

definition failing_agents :: "(nat, string, string) agents" where
  "failing_agents =
     \<lparr>email_writer_agent = failing_writer, feedback_agent = test_feedback 0,
      format_user = test_format_user, format_user_email = test_format_user_email\<rparr>"

definition jane :: User where
  "jane = \<lparr>name = ''Jane Doe'', email = ''jane@example.com'',
            interests = [''chess'', ''gardening'']\<rparr>"

definition start_ctx :: "User \<Rightarrow> (nat, string) ctx" where
  "start_ctx u = \<lparr>state = \<lparr>user = u, write_agent_messages = []\<rparr>, world = 0, calls = []\<rparr>"

text \<open>A context in which two messages of an earlier exchange are already stored.\<close>

definition ctx_with_history :: "(nat, string) ctx" where
  "ctx_with_history =
     \<lparr>state = \<lparr>user = jane, write_agent_messages = [''old request'', ''old response'']\<rparr>,
      world = 0, calls = []\<rparr>"

definition env_without_key :: "string \<rightharpoonup> string" where
  "env_without_key = [''PATH'' \<mapsto> ''/usr/bin'']"

section \<open>Facts about the string operations\<close>

lemma split_Nil_case:
  "dropWhile (\<lambda>c. c \<noteq> sep) s = [] \<Longrightarrow> split sep s = [s]"
  by (subst split.simps) (simp only: list.case)

lemma split_Cons_case:
  "dropWhile (\<lambda>c. c \<noteq> sep) s = x # rest \<Longrightarrow>
   split sep s = takeWhile (\<lambda>c. c \<noteq> sep) s # split sep rest"
  by (subst split.simps) (simp only: list.case)

lemma split_not_Nil: "split sep s \<noteq> []"
  by (cases "dropWhile (\<lambda>c. c \<noteq> sep) s") (simp_all only: split_Nil_case split_Cons_case list.distinct not_False_eq_True)

lemma join_Cons: "ps \<noteq> [] \<Longrightarrow> join sep (p # ps) = p @ sep # join sep ps"
  by (cases ps) simp_all

lemma join_split: "join sep (split sep s) = s"
proof (induction sep s rule: split.induct)
  case (1 sep s)
  show ?case
  proof (cases "dropWhile (\<lambda>c. c \<noteq> sep) s")
    case Nil
    have "split sep s = [s]" by (rule split_Nil_case [OF Nil])
    then show ?thesis by simp
  next
    case (Cons x rest)
    have "x = hd (dropWhile (\<lambda>c. c \<noteq> sep) s)" by (simp add: Cons)
    moreover have "\<not> (hd (dropWhile (\<lambda>c. c \<noteq> sep) s) \<noteq> sep)"
      by (rule hd_dropWhile) (simp add: Cons)
    ultimately have x: "x = sep" by simp
    have "takeWhile (\<lambda>c. c \<noteq> sep) s @ dropWhile (\<lambda>c. c \<noteq> sep) s = s"
      by (rule takeWhile_dropWhile_id)
    then have s: "takeWhile (\<lambda>c. c \<noteq> sep) s @ sep # rest = s" by (simp only: Cons x)
    have ih: "join sep (split sep rest) = rest" by (rule "1.IH" [OF Cons])
    have "join sep (split sep s) = takeWhile (\<lambda>c. c \<noteq> sep) s @ sep # join sep (split sep rest)"
      by (simp only: split_Cons_case [OF Cons] join_Cons [OF split_not_Nil])
    also have "\<dots> = s" by (simp only: ih s)
    finally show ?thesis .
  qed
qed




section \<open>Facts about the nodes and the run\<close>

lemma run_sync_WriteEmail:
  "run_sync A (WriteEmail fb) c =
     (case WriteEmail_run A fb c of
        (Inl e, c') \<Rightarrow> Some (Inl e, c')
      | (Inr n, c') \<Rightarrow> run_sync A n c')"
  by (subst run_sync.simps) simp

lemma run_sync_Feedback:
  "run_sync A (Feedback em) c =
     (case Feedback_run A em c of
        (Inl e, c') \<Rightarrow> Some (Inl e, c')
      | (Inr (Next n), c') \<Rightarrow> run_sync A n c'
      | (Inr (End final_email), c') \<Rightarrow> Some (Inr final_email, c'))"
  by (subst run_sync.simps) simp

lemma WriteEmail_run_Inr:
  assumes "email_writer_agent A (WriteEmail_prompt (format_user A) (user (state c)) fb) (world c)
             = (Inr (doc, msgs), w1)"
  shows "WriteEmail_run A fb c =
     (Inr (Feedback doc),
      c\<lparr>state := (state c)\<lparr>write_agent_messages := msgs\<rparr>, world := w1,
        calls := calls c @ [WriterRun (WriteEmail_prompt (format_user A) (user (state c)) fb)]\<rparr>)"
  using assms by (simp add: WriteEmail_run_def)

lemma WriteEmail_run_Inl:
  assumes "email_writer_agent A (WriteEmail_prompt (format_user A) (user (state c)) fb) (world c)
             = (Inl e, w1)"
  shows "WriteEmail_run A fb c =
     (Inl e,
      c\<lparr>world := w1,
        calls := calls c @ [WriterRun (WriteEmail_prompt (format_user A) (user (state c)) fb)]\<rparr>)"
  using assms by (simp add: WriteEmail_run_def)

lemma Feedback_run_Email0k:
  assumes "feedback_agent A (format_user_email A (user (state c)) em) (world c) = (Inr Email0k, w1)"
  shows "Feedback_run A em c =
     (Inr (End em),
      c\<lparr>world := w1, calls := calls c @ [FeedbackRun (format_user_email A (user (state c)) em)]\<rparr>)"
  using assms by (simp add: Feedback_run_def)

lemma Feedback_run_EmailRequiresWrite:
  assumes "feedback_agent A (format_user_email A (user (state c)) em) (world c)
             = (Inr (EmailRequiresWrite f), w1)"
  shows "Feedback_run A em c =
     (Inr (Next (WriteEmail (Some f))),
      c\<lparr>world := w1, calls := calls c @ [FeedbackRun (format_user_email A (user (state c)) em)]\<rparr>)"
  using assms by (simp add: Feedback_run_def)

lemma WriteEmail_run_calls:
  "calls (snd (WriteEmail_run A fb c)) =
     calls c @ [WriterRun (WriteEmail_prompt (format_user A) (user (state c)) fb)]"
  by (simp add: WriteEmail_run_def Let_def split: prod.splits sum.splits)

lemma WriteEmail_run_user: "user (state (snd (WriteEmail_run A fb c))) = user (state c)"
  by (simp add: WriteEmail_run_def Let_def split: prod.splits sum.splits)

lemma Feedback_run_user: "user (state (snd (Feedback_run A em c))) = user (state c)"
  by (simp add: Feedback_run_def Let_def split: prod.splits sum.splits feedback_result.splits)

lemma run_sync_user:
  assumes "run_sync A n c = Some y"
  shows "user (state (snd y)) = user (state c)"
  apply (rule run_sync.raw_induct
           [where P = "\<lambda>A n c y. user (state (snd y)) = user (state c)", OF _ assms])
  subgoal premises p for run A n c y
  proof (cases n)
    case (WriteEmail fb)
    obtain r c' where s: "WriteEmail_run A fb c = (r, c')" by (cases "WriteEmail_run A fb c")
    have u: "user (state c') = user (state c)" using WriteEmail_run_user [of A fb c] s by simp
    show ?thesis
    proof (cases r)
      case (Inl e)
      with p(2) WriteEmail s u show ?thesis by auto
    next
      case (Inr n')
      with p(2) WriteEmail s have "run A n' c' = Some y" by simp
      from p(1) [OF this] u show ?thesis by simp
    qed
  next
    case (Feedback em)
    obtain r c' where s: "Feedback_run A em c = (r, c')" by (cases "Feedback_run A em c")
    have u: "user (state c') = user (state c)" using Feedback_run_user [of A em c] s by simp
    show ?thesis
    proof (cases r)
      case (Inl e)
      with p(2) Feedback s u show ?thesis by auto
    next
      case (Inr st)
      show ?thesis
      proof (cases st)
        case (Next n')
        with p(2) Feedback s Inr have "run A n' c' = Some y" by simp
        from p(1) [OF this] u show ?thesis by simp
      next
        case (End d)
        with p(2) Feedback s Inr u show ?thesis by auto
      qed
    qed
  qed
  done

text \<open>The definitions of the test doubles, and the run they give when every draft is approved.\<close>

lemmas test_defs = test_agents_def failing_agents_def test_writer_def test_feedback_def
  failing_writer_def test_format_user_def test_format_user_email_def start_ctx_def jane_def
  ctx_with_history_def Let_def

lemma run_test_agents_0:
  "run_sync (test_agents 0) (WriteEmail None) (start_ctx jane) =
     Some (Inr \<lparr>subject = ''Welcome'', body = ''first draft''\<rparr>,
           \<lparr>state = \<lparr>user = jane, write_agent_messages = [''first draft'']\<rparr>, world = 2,
            calls =
              [WriterRun (''Write a welcome email for the user:\<newline>'' @ user_xml),
               FeedbackRun ''Jane Doe <jane@example.com> chess,gardening / Welcome / first draft'']\<rparr>)"
  by (simp add: run_sync_WriteEmail run_sync_Feedback WriteEmail_run_def Feedback_run_def test_defs)

section \<open>Parsing the interests\<close>



section \<open>The feedback loop\<close>

text \<open>
  Claim C1. When the writer answers the first draft call with a document and the
  feedback agent approves that document on its first call, the run returns exactly that
  document. The writer was called once and the feedback agent once, in this order, and
  no call follows the approval: the two calls are all that the run adds to the log.
\<close>

theorem approved_first:
  assumes "email_writer_agent A (WriteEmail_prompt (format_user A) (user (state c)) None) (world c)
             = (Inr (doc, msgs), w1)"
    and "feedback_agent A (format_user_email A (user (state c)) doc) w1 = (Inr Email0k, w2)"
  shows "run_sync A (WriteEmail None) c =
     Some (Inr doc,
           c\<lparr>state := (state c)\<lparr>write_agent_messages := msgs\<rparr>, world := w2,
             calls := calls c @
               [WriterRun (WriteEmail_prompt (format_user A) (user (state c)) None),
                FeedbackRun (format_user_email A (user (state c)) doc)]\<rparr>)"
proof -
  let ?c1 = "c\<lparr>state := (state c)\<lparr>write_agent_messages := msgs\<rparr>, world := w1,
        calls := calls c @ [WriterRun (WriteEmail_prompt (format_user A) (user (state c)) None)]\<rparr>"
  have w: "WriteEmail_run A None c = (Inr (Feedback doc), ?c1)"
    by (rule WriteEmail_run_Inr [OF assms(1)])
  have "feedback_agent A (format_user_email A (user (state ?c1)) doc) (world ?c1) = (Inr Email0k, w2)"
    using assms(2) by simp
  from Feedback_run_Email0k [OF this]
  have f: "Feedback_run A doc ?c1 =
     (Inr (End doc), c\<lparr>state := (state c)\<lparr>write_agent_messages := msgs\<rparr>, world := w2,
             calls := calls c @
               [WriterRun (WriteEmail_prompt (format_user A) (user (state c)) None),
                FeedbackRun (format_user_email A (user (state c)) doc)]\<rparr>)"
    by simp
  show ?thesis
    by (simp only: run_sync_WriteEmail w prod.case sum.case run_sync_Feedback f next_step.case)
qed

theorem approved_first_witness:
  "run_sync (test_agents 0) (WriteEmail None) (start_ctx jane) =
     Some (Inr \<lparr>subject = ''Welcome'', body = ''first draft''\<rparr>,
           \<lparr>state = \<lparr>user = jane, write_agent_messages = [''first draft'']\<rparr>, world = 2,
            calls = [WriterRun (''Write a welcome email for the user:\<newline>'' @ user_xml),
                     FeedbackRun ''Jane Doe <jane@example.com> chess,gardening / Welcome / first draft'']\<rparr>)"
proof -
  have a: "email_writer_agent (test_agents 0)
       (WriteEmail_prompt (format_user (test_agents 0)) (user (state (start_ctx jane))) None)
       (world (start_ctx jane))
     = (Inr (\<lparr>subject = ''Welcome'', body = ''first draft''\<rparr>, [''first draft'']), 1)"
    by (simp add: test_defs)
  have b: "feedback_agent (test_agents 0)
       (format_user_email (test_agents 0) (user (state (start_ctx jane)))
          \<lparr>subject = ''Welcome'', body = ''first draft''\<rparr>) 1 = (Inr Email0k, 2)"
    by (simp add: test_defs)
  show ?thesis
    using approved_first [OF a b] by (simp add: test_defs)
qed

text \<open>
  Claim C3. When the feedback agent asks for a rewrite once, with feedback \<open>f\<close>, and
  approves the second document, the run calls the writer twice and the feedback agent
  twice, alternating. The node that follows the first critique is
  \<^verbatim>\<open>WriteEmail(email_feedback=f)\<close>, the second draft call is made with the prompt
  built from \<open>f\<close>, and the document returned is the one the second draft call
  produced.
\<close>

theorem revised_once:
  assumes "email_writer_agent A (WriteEmail_prompt (format_user A) (user (state c)) None) (world c)
             = (Inr (doc1, msgs1), w1)"
    and "feedback_agent A (format_user_email A (user (state c)) doc1) w1
             = (Inr (EmailRequiresWrite f), w2)"
    and "email_writer_agent A (WriteEmail_prompt (format_user A) (user (state c)) (Some f)) w2
             = (Inr (doc2, msgs2), w3)"
    and "feedback_agent A (format_user_email A (user (state c)) doc2) w3 = (Inr Email0k, w4)"
  shows "run_sync A (WriteEmail None) c =
     Some (Inr doc2,
           c\<lparr>state := (state c)\<lparr>write_agent_messages := msgs2\<rparr>, world := w4,
             calls := calls c @
               [WriterRun (WriteEmail_prompt (format_user A) (user (state c)) None),
                FeedbackRun (format_user_email A (user (state c)) doc1),
                WriterRun (WriteEmail_prompt (format_user A) (user (state c)) (Some f)),
                FeedbackRun (format_user_email A (user (state c)) doc2)]\<rparr>)
     \<and> fst (Feedback_run A doc1 (snd (WriteEmail_run A None c))) = Inr (Next (WriteEmail (Some f)))"
proof -
  let ?p0 = "WriteEmail_prompt (format_user A) (user (state c)) None"
  let ?q1 = "format_user_email A (user (state c)) doc1"
  let ?p1 = "WriteEmail_prompt (format_user A) (user (state c)) (Some f)"
  let ?q2 = "format_user_email A (user (state c)) doc2"
  let ?c1 = "c\<lparr>state := (state c)\<lparr>write_agent_messages := msgs1\<rparr>, world := w1,
        calls := calls c @ [WriterRun ?p0]\<rparr>"
  let ?c2 = "c\<lparr>state := (state c)\<lparr>write_agent_messages := msgs1\<rparr>, world := w2,
        calls := calls c @ [WriterRun ?p0, FeedbackRun ?q1]\<rparr>"
  let ?c3 = "c\<lparr>state := (state c)\<lparr>write_agent_messages := msgs2\<rparr>, world := w3,
        calls := calls c @ [WriterRun ?p0, FeedbackRun ?q1, WriterRun ?p1]\<rparr>"
  let ?c4 = "c\<lparr>state := (state c)\<lparr>write_agent_messages := msgs2\<rparr>, world := w4,
        calls := calls c @ [WriterRun ?p0, FeedbackRun ?q1, WriterRun ?p1, FeedbackRun ?q2]\<rparr>"
  have s1: "WriteEmail_run A None c = (Inr (Feedback doc1), ?c1)"
    by (rule WriteEmail_run_Inr [OF assms(1)])
  have "feedback_agent A (format_user_email A (user (state ?c1)) doc1) (world ?c1)
          = (Inr (EmailRequiresWrite f), w2)"
    using assms(2) by simp
  from Feedback_run_EmailRequiresWrite [OF this]
  have s2: "Feedback_run A doc1 ?c1 = (Inr (Next (WriteEmail (Some f))), ?c2)" by simp
  have "email_writer_agent A (WriteEmail_prompt (format_user A) (user (state ?c2)) (Some f))
          (world ?c2) = (Inr (doc2, msgs2), w3)"
    using assms(3) by simp
  from WriteEmail_run_Inr [OF this]
  have s3: "WriteEmail_run A (Some f) ?c2 = (Inr (Feedback doc2), ?c3)" by simp
  have "feedback_agent A (format_user_email A (user (state ?c3)) doc2) (world ?c3)
          = (Inr Email0k, w4)"
    using assms(4) by simp
  from Feedback_run_Email0k [OF this]
  have s4: "Feedback_run A doc2 ?c3 = (Inr (End doc2), ?c4)" by simp
  have r: "run_sync A (WriteEmail None) c = Some (Inr doc2, ?c4)"
    by (simp only: run_sync_WriteEmail run_sync_Feedback s1 s2 s3 s4
          prod.case sum.case next_step.case)
  have n: "fst (Feedback_run A doc1 (snd (WriteEmail_run A None c)))
             = Inr (Next (WriteEmail (Some f)))"
    by (simp only: s1 s2 fst_conv snd_conv)
  from r n show ?thesis by (rule conjI)
qed

theorem revised_once_witness:
  "run_sync (test_agents 2) (WriteEmail None) (start_ctx jane) =
     Some (Inr \<lparr>subject = ''Welcome'', body = ''revised draft''\<rparr>,
           \<lparr>state = \<lparr>user = jane, write_agent_messages = [''revised draft'']\<rparr>, world = 4,
            calls =
              [WriterRun (''Write a welcome email for the user:\<newline>'' @ user_xml),
               FeedbackRun ''Jane Doe <jane@example.com> chess,gardening / Welcome / first draft'',
               WriterRun (''Rewrite the email for the user:\<newline>'' @
                          ''Jane Doe <jane@example.com> chess,gardening'' @
                          ''\<newline>Feedback: mention gardening''),
               FeedbackRun ''Jane Doe <jane@example.com> chess,gardening / Welcome / revised draft'']\<rparr>)
   \<and> fst (Feedback_run (test_agents 2) \<lparr>subject = ''Welcome'', body = ''first draft''\<rparr>
              (snd (WriteEmail_run (test_agents 2) None (start_ctx jane))))
       = Inr (Next (WriteEmail (Some ''mention gardening'')))"
proof -
  have a: "email_writer_agent (test_agents 2)
       (WriteEmail_prompt (format_user (test_agents 2)) (user (state (start_ctx jane))) None)
       (world (start_ctx jane))
     = (Inr (\<lparr>subject = ''Welcome'', body = ''first draft''\<rparr>, [''first draft'']), 1)"
    by (simp add: test_defs)
  have b: "feedback_agent (test_agents 2)
       (format_user_email (test_agents 2) (user (state (start_ctx jane)))
          \<lparr>subject = ''Welcome'', body = ''first draft''\<rparr>) 1
     = (Inr (EmailRequiresWrite ''mention gardening''), 2)"
    by (simp add: test_defs)
  have c: "email_writer_agent (test_agents 2)
       (WriteEmail_prompt (format_user (test_agents 2)) (user (state (start_ctx jane)))
          (Some ''mention gardening'')) 2
     = (Inr (\<lparr>subject = ''Welcome'', body = ''revised draft''\<rparr>, [''revised draft'']), 3)"
    by (simp add: test_defs)
  have d: "feedback_agent (test_agents 2)
       (format_user_email (test_agents 2) (user (state (start_ctx jane)))
          \<lparr>subject = ''Welcome'', body = ''revised draft''\<rparr>) 3 = (Inr Email0k, 4)"
    by (simp add: test_defs)
  show ?thesis
    using revised_once [OF a b c d] by (simp add: test_defs)
qed

text \<open>
  Claim C7. When a draft call raises, in the first round or in a later one, the run
  ends at once with that exception. The failed call is the last entry of the log, so the
  feedback agent is not called after it and the writer is not called again; the state
  is left as it was.
\<close>

theorem draft_failure_propagates:
  assumes "email_writer_agent A (WriteEmail_prompt (format_user A) (user (state c)) fb) (world c)
             = (Inl e, w1)"
  shows "run_sync A (WriteEmail fb) c =
     Some (Inl e,
           c\<lparr>world := w1,
             calls := calls c @
               [WriterRun (WriteEmail_prompt (format_user A) (user (state c)) fb)]\<rparr>)"
proof -
  have "WriteEmail_run A fb c =
     (Inl e, c\<lparr>world := w1,
        calls := calls c @ [WriterRun (WriteEmail_prompt (format_user A) (user (state c)) fb)]\<rparr>)"
    by (rule WriteEmail_run_Inl [OF assms])
  then show ?thesis
    by (simp only: run_sync_WriteEmail prod.case sum.case)
qed

theorem draft_failure_propagates_witness:
  "run_sync failing_agents (WriteEmail None) (start_ctx jane) =
     Some (Inl ''UnexpectedModelBehavior'',
           \<lparr>state = \<lparr>user = jane, write_agent_messages = []\<rparr>, world = 1,
            calls = [WriterRun (''Write a welcome email for the user:\<newline>'' @ user_xml)]\<rparr>)"
proof -
  have a: "email_writer_agent failing_agents
       (WriteEmail_prompt (format_user failing_agents) (user (state (start_ctx jane))) None)
       (world (start_ctx jane)) = (Inl ''UnexpectedModelBehavior'', 1)"
    by (simp add: test_defs)
  show ?thesis
    using draft_failure_propagates [OF a] by (simp add: test_defs)
qed

section \<open>The state during a run\<close>

text \<open>
  Claim C9. Neither \<^verbatim>\<open>WriteEmail.run\<close> nor \<^verbatim>\<open>Feedback.run\<close> changes the user held in
  the state, whatever the agents answer, and the state a run ends with holds the user
  it started with.
\<close>

theorem user_never_modified:
  "user (state (snd (WriteEmail_run A fb c))) = user (state c)
   \<and> user (state (snd (Feedback_run A em c))) = user (state c)
   \<and> (run_sync A n c = Some (r, c') \<longrightarrow> user (state c') = user (state c))"
proof (intro conjI impI)
  show "user (state (snd (WriteEmail_run A fb c))) = user (state c)"
    by (rule WriteEmail_run_user)
  show "user (state (snd (Feedback_run A em c))) = user (state c)"
    by (rule Feedback_run_user)
  assume "run_sync A n c = Some (r, c')"
  from run_sync_user [OF this] show "user (state c') = user (state c)" by simp
qed

theorem user_never_modified_witness:
  "run_sync (test_agents 0) (WriteEmail None) (start_ctx jane) =
     Some (Inr \<lparr>subject = ''Welcome'', body = ''first draft''\<rparr>,
           \<lparr>state = \<lparr>user = jane, write_agent_messages = [''first draft'']\<rparr>, world = 2,
            calls =
              [WriterRun (''Write a welcome email for the user:\<newline>'' @ user_xml),
               FeedbackRun ''Jane Doe <jane@example.com> chess,gardening / Welcome / first draft'']\<rparr>)
   \<and> user (state \<lparr>state = \<lparr>user = jane, write_agent_messages = [''first draft'']\<rparr>,
            world = 2 :: nat,
            calls =
              [WriterRun (''Write a welcome email for the user:\<newline>'' @ user_xml),
               FeedbackRun ''Jane Doe <jane@example.com> chess,gardening / Welcome / first draft'']\<rparr>)
       = user (state (start_ctx jane))"
  using user_never_modified [of "test_agents 0" None "start_ctx jane"
      "\<lparr>subject = ''Welcome'', body = ''first draft''\<rparr>" "WriteEmail None"
      "Inr \<lparr>subject = ''Welcome'', body = ''first draft''\<rparr>"
      "\<lparr>state = \<lparr>user = jane, write_agent_messages = [''first draft'']\<rparr>, world = 2,
            calls =
              [WriterRun (''Write a welcome email for the user:\<newline>'' @ user_xml),
               FeedbackRun ''Jane Doe <jane@example.com> chess,gardening / Welcome / first draft'']\<rparr>"]
    run_test_agents_0
  by blast

text \<open>
  Claim C6, as stated, fails. Line 108 assigns \<^verbatim>\<open>result.all_messages()\<close> to
  \<^verbatim>\<open>write_agent_messages\<close>: after the first draft call the history holds the first
  exchange, and after the second draft call it holds the second exchange only.
\<close>

theorem history_not_append_only:
  "write_agent_messages (state (snd (WriteEmail_run (test_agents 2) None (start_ctx jane))))
     = [''first draft'']
   \<and> write_agent_messages (state (snd (WriteEmail_run (test_agents 2) (Some ''mention gardening'')
          (snd (WriteEmail_run (test_agents 2) None (start_ctx jane))))))
     = [''revised draft'']
   \<and> ''first draft'' \<notin> set (write_agent_messages (state (snd (WriteEmail_run (test_agents 2)
          (Some ''mention gardening'') (snd (WriteEmail_run (test_agents 2) None (start_ctx jane)))))))"
  by (simp add: WriteEmail_run_def test_defs)

text \<open>
  Claim C6, amended. A draft call that succeeds replaces the stored history by the
  messages of that call, whatever was stored before: messages recorded earlier are not
  kept.
\<close>

theorem history_is_last_exchange:
  assumes "email_writer_agent A (WriteEmail_prompt (format_user A) (user (state c)) fb) (world c)
             = (Inr (doc, msgs), w1)"
  shows "write_agent_messages (state (snd (WriteEmail_run A fb c))) = msgs"
  by (simp add: WriteEmail_run_Inr [OF assms])

theorem history_is_last_exchange_witness:
  "write_agent_messages (state ctx_with_history) = [''old request'', ''old response'']
   \<and> write_agent_messages (state (snd (WriteEmail_run (test_agents 0) None ctx_with_history)))
       = [''first draft'']"
proof -
  have a: "email_writer_agent (test_agents 0)
       (WriteEmail_prompt (format_user (test_agents 0)) (user (state ctx_with_history)) None)
       (world ctx_with_history)
     = (Inr (\<lparr>subject = ''Welcome'', body = ''first draft''\<rparr>, [''first draft'']), 1)"
    by (simp add: test_defs)
  have b: "write_agent_messages (state ctx_with_history) = [''old request'', ''old response'']"
    by (simp add: ctx_with_history_def)
  from history_is_last_exchange [OF a] b show ?thesis by (rule conjI [rotated])
qed

section \<open>The prompt of the draft node\<close>

text \<open>
  Claim C10. Empty feedback is treated as no feedback. Run with \<^verbatim>\<open>""\<close> or with
  \<^verbatim>\<open>None\<close>, the node calls the writer once, with the prompt of the initial draft, and
  the two runs are the same. Run with non-empty feedback \<open>f\<close> it calls the writer
  once with the rewrite prompt, built from the formatted user and \<open>f\<close>. The prompt
  sent is the one of the initial draft exactly when the feedback is \<^verbatim>\<open>None\<close> or
  empty, so the rewrite branch is taken only for non-empty feedback.
\<close>

theorem empty_feedback_is_no_feedback:
  "calls (snd (WriteEmail_run A (Some []) c)) =
     calls c @ [WriterRun (''Write a welcome email for the user:\<newline>'' @ user_xml)]
   \<and> calls (snd (WriteEmail_run A None c)) =
     calls c @ [WriterRun (''Write a welcome email for the user:\<newline>'' @ user_xml)]
   \<and> WriteEmail_run A (Some []) c = WriteEmail_run A None c
   \<and> (f \<noteq> [] \<longrightarrow>
        calls (snd (WriteEmail_run A (Some f) c)) =
          calls c @ [WriterRun (''Rewrite the email for the user:\<newline>'' @
                                format_user A (user (state c)) @ ''\<newline>'' @ ''Feedback: '' @ f)])
   \<and> (calls (snd (WriteEmail_run A fb c)) =
          calls c @ [WriterRun (''Write a welcome email for the user:\<newline>'' @ user_xml)]
        \<longleftrightarrow> fb = None \<or> fb = Some [])
   \<and> WriteEmail_prompt fmt u (Some []) = WriteEmail_prompt fmt u None
   \<and> (f \<noteq> [] \<longrightarrow>
        WriteEmail_prompt fmt u (Some f) =
          ''Rewrite the email for the user:\<newline>'' @ fmt u @ ''\<newline>'' @ ''Feedback: '' @ f)
   \<and> (WriteEmail_prompt fmt u fb = WriteEmail_prompt fmt u None
        \<longleftrightarrow> fb = None \<or> fb = Some [])"
proof (intro conjI impI)
  show "calls (snd (WriteEmail_run A (Some []) c)) =
     calls c @ [WriterRun (''Write a welcome email for the user:\<newline>'' @ user_xml)]"
    by (simp add: WriteEmail_run_calls)
  show "calls (snd (WriteEmail_run A None c)) =
     calls c @ [WriterRun (''Write a welcome email for the user:\<newline>'' @ user_xml)]"
    by (simp add: WriteEmail_run_calls)
  show "WriteEmail_run A (Some []) c = WriteEmail_run A None c"
    by (simp add: WriteEmail_run_def)
  show "calls (snd (WriteEmail_run A (Some f) c)) =
          calls c @ [WriterRun (''Rewrite the email for the user:\<newline>'' @
                                format_user A (user (state c)) @ ''\<newline>'' @ ''Feedback: '' @ f)]"
    if "f \<noteq> []" using that by (simp add: WriteEmail_run_calls)
  show "calls (snd (WriteEmail_run A fb c)) =
          calls c @ [WriterRun (''Write a welcome email for the user:\<newline>'' @ user_xml)]
        \<longleftrightarrow> fb = None \<or> fb = Some []"
    by (cases fb) (auto simp: WriteEmail_run_calls)
  show "WriteEmail_prompt fmt u (Some []) = WriteEmail_prompt fmt u None" by simp
  show "WriteEmail_prompt fmt u (Some f) =
          ''Rewrite the email for the user:\<newline>'' @ fmt u @ ''\<newline>'' @ ''Feedback: '' @ f"
    if "f \<noteq> []" using that by simp
  show "WriteEmail_prompt fmt u fb = WriteEmail_prompt fmt u None
        \<longleftrightarrow> fb = None \<or> fb = Some []"
    by (cases fb) auto
qed

theorem empty_feedback_is_no_feedback_witness:
  "''mention gardening'' \<noteq> []
   \<and> calls (snd (WriteEmail_run (test_agents 0) (Some ''mention gardening'') (start_ctx jane))) =
       [WriterRun (''Rewrite the email for the user:\<newline>'' @
                   ''Jane Doe <jane@example.com> chess,gardening'' @
                   ''\<newline>'' @ ''Feedback: '' @ ''mention gardening'')]
   \<and> calls (snd (WriteEmail_run (test_agents 0) (Some []) (start_ctx jane))) =
       [WriterRun (''Write a welcome email for the user:\<newline>'' @ user_xml)]
   \<and> WriteEmail_prompt test_format_user jane (Some ''mention gardening'') =
       ''Rewrite the email for the user:\<newline>'' @ ''Jane Doe <jane@example.com> chess,gardening'' @
       ''\<newline>'' @ ''Feedback: '' @ ''mention gardening''
   \<and> WriteEmail_prompt test_format_user jane (Some ''mention gardening'')
       \<noteq> WriteEmail_prompt test_format_user jane None"
  using empty_feedback_is_no_feedback [of "test_agents 0" "start_ctx jane"
      "''mention gardening''" "Some ''mention gardening''" test_format_user jane]
  by (simp add: test_defs)

text \<open>
  Claim C2 does not hold of the code. With no feedback the prompt is a fixed text that
  names John Doe; it is the same for every user and every formatter, and it is the
  prompt the writer receives for Jane Doe.
\<close>

theorem initial_prompt_ignores_user:
  "WriteEmail_prompt fmt jane None =
     ''Write a welcome email for the user:\<newline>'' @
     ''\<newline>            <examples>'' @
     ''\<newline>                <name>John Doe</name>'' @
     ''\<newline>                <email>john.joe@example.com</email>'' @
     ''\<newline>            </examples>'' @
     ''\<newline>            ''
   \<and> WriteEmail_prompt fmt u None = WriteEmail_prompt fmt jane None
   \<and> calls (snd (WriteEmail_run (test_agents 0) None (start_ctx jane)))
       = [WriterRun (WriteEmail_prompt test_format_user jane None)]"
  by (simp add: user_xml_def WriteEmail_run_def test_defs)

section \<open>Startup and input checks\<close>

text \<open>
  Claim C4, as stated, fails. In an environment without \<^verbatim>\<open>OPENAI_API_KEY\<close> the key
  is the placeholder text and both models are built with it.
\<close>

theorem missing_key_uses_placeholder:
  "env_without_key ''OPENAI_API_KEY'' = None
   \<and> openai_api_key env_without_key = ''your-api-key-here''
   \<and> email_writer_model env_without_key
        = \<lparr>model_name = ''gpt-3.5-turbo'', api_key = ''your-api-key-here''\<rparr>
   \<and> feedback_model env_without_key
        = \<lparr>model_name = ''gpt-3.5-turbo'', api_key = ''your-api-key-here''\<rparr>"
  by (simp add: env_without_key_def openai_api_key_def getenv_def email_writer_model_def
        feedback_model_def)

text \<open>
  Claim C4, amended. When \<^verbatim>\<open>OPENAI_API_KEY\<close> is absent from the environment, the key
  is \<^verbatim>\<open>"your-api-key-here"\<close> and both models are constructed with that value.
\<close>

theorem absent_key_defaults:
  assumes "env ''OPENAI_API_KEY'' = None"
  shows "openai_api_key env = ''your-api-key-here''
     \<and> api_key (email_writer_model env) = ''your-api-key-here''
     \<and> api_key (feedback_model env) = ''your-api-key-here''"
  using assms
  by (simp add: openai_api_key_def getenv_def email_writer_model_def feedback_model_def)

theorem absent_key_defaults_witness:
  "Map.empty ''OPENAI_API_KEY'' = (None :: string option)
   \<and> openai_api_key Map.empty = ''your-api-key-here''
   \<and> api_key (email_writer_model Map.empty) = ''your-api-key-here''
   \<and> api_key (feedback_model Map.empty) = ''your-api-key-here''"
proof -
  have a: "Map.empty ''OPENAI_API_KEY'' = (None :: string option)" by simp
  from absent_key_defaults [OF a] a show ?thesis by simp
qed

text \<open>
  Claim C5 does not hold of the code. \<^verbatim>\<open>generate_email\<close> called with the address
  \<^verbatim>\<open>"not-an-email"\<close> builds the user with that address, calls the writer and the
  feedback agent, and returns the rendered email.
\<close>

theorem invalid_email_not_rejected:
  "generate_email (test_agents 0) ''Jane Doe'' ''not-an-email'' ''chess, , gardening,'' 0 =
     Some (Inr ''Subject: Welcome\<newline>\<newline>first draft'',
           \<lparr>state = \<lparr>user = \<lparr>name = ''Jane Doe'', email = ''not-an-email'',
                               interests = [''chess'', ''gardening'']\<rparr>,
                      write_agent_messages = [''first draft'']\<rparr>,
            world = 2,
            calls =
              [WriterRun (''Write a welcome email for the user:\<newline>'' @ user_xml),
               FeedbackRun ''Jane Doe <not-an-email> chess,gardening / Welcome / first draft'']\<rparr>)"
proof -
  have i: "interests_list ''chess, , gardening,'' = [''chess'', ''gardening'']"
    by (simp add: interests_list_def split.simps strip_def py_isspace_def)
  show ?thesis
    by (simp add: generate_email_def i render_def run_sync_WriteEmail run_sync_Feedback
          WriteEmail_run_def Feedback_run_def test_defs)
qed

end
